theory Spec2Isabelle
  imports Main "HOL-Library.Sublist"
begin

section \<open>Python string primitives used by \<^verbatim>\<open>prompt_utils.py\<close>\<close>

text \<open>
  A Python \<^verbatim>\<open>str\<close> is modelled as a \<^typ>\<open>string\<close> whose characters are the code points
  below 256 (Latin-1). On that range \<^verbatim>\<open>str.isspace\<close>, \<^verbatim>\<open>str.lower\<close>,
  \<^verbatim>\<open>str.strip\<close> and \<^verbatim>\<open>str.split\<close> are as below, and \<^verbatim>\<open>str.lower\<close> never leaves
  the range. Text with code points from 256 on is outside the model.
\<close>

text \<open>
  The whitespace of \<^verbatim>\<open>str.strip()\<close> and \<^verbatim>\<open>str.split()\<close>: TAB, LF, VT, FF, CR, the
  separators FS, GS, RS, US, the space, NEL (0x85) and the no-break space (0xA0).
\<close>

definition py_isspace :: "char \<Rightarrow> bool" where
  "py_isspace c = (of_char c \<in> {9, 10, 11, 12, 13, 28, 29, 30, 31, 32, 133, 160 :: nat})"

text \<open>
  \<^verbatim>\<open>str.lower()\<close>, one character at a time: A-Z and the upper-case letters
  0xC0-0xDE (the multiplication sign 0xD7 apart) move up by 32.
\<close>

definition py_lower_char :: "char \<Rightarrow> char" where
  "py_lower_char c =
     (let n = of_char c :: nat
      in if (65 \<le> n \<and> n \<le> 90) \<or> (192 \<le> n \<and> n \<le> 222 \<and> n \<noteq> 215)
         then char_of (n + 32) else c)"

definition py_lower :: "string \<Rightarrow> string" where
  "py_lower s = map py_lower_char s"

text \<open>\<^verbatim>\<open>str.strip()\<close>: whitespace removed from both ends.\<close>

definition py_strip :: "string \<Rightarrow> string" where
  "py_strip s = rev (dropWhile py_isspace (rev (dropWhile py_isspace s)))"

text \<open>
  \<^verbatim>\<open>str.split()\<close> without arguments: the maximal runs of non-whitespace, in order;
  a string of whitespace only gives the empty list.
\<close>

function py_split :: "string \<Rightarrow> string list" where
  "py_split s =
     (case dropWhile py_isspace s of
        [] \<Rightarrow> []
      | c # cs \<Rightarrow>
          (c # takeWhile (\<lambda>x. \<not> py_isspace x) cs)
            # py_split (dropWhile (\<lambda>x. \<not> py_isspace x) cs))"
  by pat_completeness auto
termination
proof (relation "measure length")
  show "wf (measure length)" by simp
next
  fix s :: string and c cs
  assume eq: "dropWhile py_isspace s = c # cs"
  have "length (dropWhile (\<lambda>x. \<not> py_isspace x) cs) \<le> length cs"
    by (rule length_dropWhile_le)
  moreover have "length (c # cs) \<le> length s"
    unfolding eq [symmetric] by (rule length_dropWhile_le)
  ultimately show "(dropWhile (\<lambda>x. \<not> py_isspace x) cs, s) \<in> measure length"
    by simp
qed

declare py_split.simps [simp del]

section \<open>Errors\<close>

text \<open>
  The exceptions the file can meet: \<^verbatim>\<open>IndexError\<close> from \<^verbatim>\<open>q.split()[0]\<close>,
  \<^verbatim>\<open>click.BadParameter\<close> raised by \<^verbatim>\<open>self.fail\<close> with its message, and
  \<^verbatim>\<open>click.Abort\<close> raised by the click prompts.
\<close>

datatype py_error = IndexError | BadParameter string | Abort

section \<open>ConfirmBoolParamType.convert\<close>

text \<open>The argument of \<^verbatim>\<open>convert\<close> is typed \<^verbatim>\<open>bool | str\<close>.\<close>

datatype prompt_value = BoolV bool | StrV string

fun convert :: "prompt_value \<Rightarrow> py_error + bool" where
  "convert (BoolV b) = Inr b"
| "convert (StrV v) =
     (let value = py_lower v
      in if value \<in> set [''yes'', ''y''] then Inr True
         else if value \<in> set [''no'', ''n''] then Inr False
         else Inl (BadParameter (value @ '' is not a valid boolean'')))"

section \<open>The double-confirmation decider\<close>

text \<open>
  \<^verbatim>\<open>sqlparse.split\<close> and \<^verbatim>\<open>query_has_where_clause\<close> are collaborators outside this
  file: the decider takes them as the parameters \<open>sql_split\<close> and \<open>has_where\<close>.
\<close>

text \<open>
  Line 46: \<^verbatim>\<open>[q.strip().lower() for q in sqlparse.split(queries) if q and q.strip()]\<close>.
\<close>

definition normalized_statements :: "(string \<Rightarrow> string list) \<Rightarrow> string \<Rightarrow> string list" where
  "normalized_statements sql_split queries =
     map (\<lambda>q. py_lower (py_strip q))
       (filter (\<lambda>q. q \<noteq> [] \<and> py_strip q \<noteq> []) (sql_split queries))"

text \<open>Line 51: \<^verbatim>\<open>[k.strip().lower() for k in keywords if k and k.strip()]\<close>.\<close>

definition normalized_keywords :: "string list \<Rightarrow> string list" where
  "normalized_keywords keywords =
     map (\<lambda>k. py_lower (py_strip k)) (filter (\<lambda>k. k \<noteq> [] \<and> py_strip k \<noteq> []) keywords)"

text \<open>
  Lines 57-61, the inner loop with its \<^verbatim>\<open>break\<close>:
  \<^verbatim>\<open>q.startswith(kw + " ") or q == kw\<close> for the first keyword that satisfies it.
\<close>

fun prefix_matched :: "string list \<Rightarrow> string \<Rightarrow> bool" where
  "prefix_matched [] q = False"
| "prefix_matched (kw # kws) q =
     (if prefix (kw @ '' '') q \<or> q = kw then True else prefix_matched kws q)"

text \<open>Line 64: \<^verbatim>\<open>q.split()[0]\<close>, an \<^verbatim>\<open>IndexError\<close> when the split is empty.\<close>

definition first_token :: "string \<Rightarrow> py_error + string" where
  "first_token q = (case py_split q of [] \<Rightarrow> Inl IndexError | w # _ \<Rightarrow> Inr w)"

text \<open>Lines 57-65: the value of \<^verbatim>\<open>matched\<close> for one statement.\<close>

definition statement_matched :: "string list \<Rightarrow> string \<Rightarrow> py_error + bool" where
  "statement_matched norm_keywords q =
     (if prefix_matched norm_keywords q then Inr True
      else case first_token q of
             Inl e \<Rightarrow> Inl e
           | Inr first \<Rightarrow> Inr (first \<in> set norm_keywords))"

text \<open>Lines 55-74: the loop over the normalized statements.\<close>

fun check_statements ::
  "(string \<Rightarrow> bool) \<Rightarrow> bool \<Rightarrow> string list \<Rightarrow> string list \<Rightarrow> py_error + bool" where
  "check_statements has_where strict_mode norm_keywords [] = Inr False"
| "check_statements has_where strict_mode norm_keywords (q # qs) =
     (case statement_matched norm_keywords q of
        Inl e \<Rightarrow> Inl e
      | Inr matched \<Rightarrow>
          if matched then
            (if strict_mode then Inr True
             else if \<not> has_where q then Inr True
             else check_statements has_where strict_mode norm_keywords qs)
          else check_statements has_where strict_mode norm_keywords qs)"

text \<open>\<^verbatim>\<open>_needs_double_confirmation(queries, keywords, strict_mode=...)\<close>, lines 31-74.\<close>

definition needs_double_confirmation ::
  "(string \<Rightarrow> string list) \<Rightarrow> (string \<Rightarrow> bool) \<Rightarrow> string \<Rightarrow> string list \<Rightarrow> bool
     \<Rightarrow> py_error + bool" where
  "needs_double_confirmation sql_split has_where queries keywords strict_mode =
     (let normalized = normalized_statements sql_split queries
      in if normalized = [] then Inr False
         else let norm_keywords = normalized_keywords keywords
              in if norm_keywords = [] then Inr False
                 else check_statements has_where strict_mode norm_keywords normalized)"

text \<open>
  The decider as the specification's redundancy remark has it: matching by exact
  equality and by the prefix \<open>phrase + " "\<close> only, without the first-token rule.
\<close>

fun check_statements_prefix_only ::
  "(string \<Rightarrow> bool) \<Rightarrow> bool \<Rightarrow> string list \<Rightarrow> string list \<Rightarrow> py_error + bool" where
  "check_statements_prefix_only has_where strict_mode norm_keywords [] = Inr False"
| "check_statements_prefix_only has_where strict_mode norm_keywords (q # qs) =
     (if prefix_matched norm_keywords q then
        (if strict_mode then Inr True
         else if \<not> has_where q then Inr True
         else check_statements_prefix_only has_where strict_mode norm_keywords qs)
      else check_statements_prefix_only has_where strict_mode norm_keywords qs)"

definition needs_double_confirmation_prefix_only ::
  "(string \<Rightarrow> string list) \<Rightarrow> (string \<Rightarrow> bool) \<Rightarrow> string \<Rightarrow> string list \<Rightarrow> bool
     \<Rightarrow> py_error + bool" where
  "needs_double_confirmation_prefix_only sql_split has_where queries keywords strict_mode =
     (let normalized = normalized_statements sql_split queries
      in if normalized = [] then Inr False
         else let norm_keywords = normalized_keywords keywords
              in if norm_keywords = [] then Inr False
                 else check_statements_prefix_only has_where strict_mode norm_keywords
                        normalized)"

section \<open>The confirmation flow\<close>

text \<open>
  The terminal as the flow sees it. \<^verbatim>\<open>click.prompt\<close> and \<^verbatim>\<open>click.confirm\<close> are library
  calls: each writes its text, blocks, and either returns the parsed answer or raises
  \<^verbatim>\<open>click.Abort\<close>. The console holds what the operator will do at the n-th call and
  the texts written so far.
\<close>

datatype outcome = Answer bool | UserAbort

record console =
  script :: "nat \<Rightarrow> outcome"
  asked :: "string list"

definition click_prompt :: "console \<Rightarrow> string \<Rightarrow> (py_error + bool) \<times> console" where
  "click_prompt con text =
     (case script con (length (asked con)) of
        Answer b \<Rightarrow> (Inr b, con\<lparr>asked := asked con @ [text]\<rparr>)
      | UserAbort \<Rightarrow> (Inl Abort, con\<lparr>asked := asked con @ [text]\<rparr>))"

definition click_confirm :: "console \<Rightarrow> string \<Rightarrow> (py_error + bool) \<times> console" where
  "click_confirm con text =
     (case script con (length (asked con)) of
        Answer b \<Rightarrow> (Inr b, con\<lparr>asked := asked con @ [text]\<rparr>)
      | UserAbort \<Rightarrow> (Inl Abort, con\<lparr>asked := asked con @ [text]\<rparr>))"

text \<open>Lines 115-120 and 123-128: \<^verbatim>\<open>except click.Abort: return False\<close>.\<close>

definition confirm :: "console \<Rightarrow> string \<Rightarrow> (py_error + bool) \<times> console" where
  "confirm con text =
     (case click_confirm con text of
        (Inl Abort, con') \<Rightarrow> (Inr False, con')
      | (r, con') \<Rightarrow> (r, con'))"

definition prompt :: "console \<Rightarrow> string \<Rightarrow> (py_error + bool) \<times> console" where
  "prompt con text =
     (case click_prompt con text of
        (Inl Abort, con') \<Rightarrow> (Inr False, con')
      | (r, con') \<Rightarrow> (r, con'))"

text \<open>
  The collaborators of \<^verbatim>\<open>confirm_destructive_query\<close>: \<^verbatim>\<open>is_destructive\<close> and
  \<^verbatim>\<open>query_has_where_clause\<close> of \<^verbatim>\<open>parseutils\<close>, \<^verbatim>\<open>sqlparse.split\<close>, and
  \<^verbatim>\<open>sys.stdin.isatty()\<close>.
\<close>

record collaborators =
  is_destructive :: "string \<Rightarrow> bool"
  sql_split :: "string \<Rightarrow> string list"
  query_has_where_clause :: "string \<Rightarrow> bool"
  stdin_isatty :: bool

definition first_prompt_text :: string where
  "first_prompt_text =
     ''You're about to run a destructive command.'' @ [CHR 0x0A]
       @ ''Do you want to proceed? (y/n)''"

definition second_prompt_text :: string where
  "second_prompt_text = ''Please type 'yes' again to confirm (y/n)''"

text \<open>
  \<^verbatim>\<open>confirm_destructive_query\<close>, lines 77-112. \<open>double_confirm\<close> is
  \<^verbatim>\<open>bool | None\<close> and \<open>keywords\<close> a list or \<^verbatim>\<open>None\<close>; the result is
  \<^verbatim>\<open>bool | None\<close>, or the exception that left the function, with the console as the
  call leaves it.
\<close>

definition confirm_destructive_query ::
  "collaborators \<Rightarrow> console \<Rightarrow> string \<Rightarrow> bool option \<Rightarrow> string list option \<Rightarrow> bool
     \<Rightarrow> (py_error + bool option) \<times> console" where
  "confirm_destructive_query env con queries double_confirm keywords strict_mode =
     (if \<not> is_destructive env queries \<or> \<not> stdin_isatty env then (Inr None, con)
      else case prompt con first_prompt_text of
        (Inl e, con1) \<Rightarrow> (Inl e, con1)
      | (Inr first, con1) \<Rightarrow>
          if \<not> first then (Inr (Some False), con1)
          else if double_confirm = Some True \<and> keywords \<noteq> None \<and> keywords \<noteq> Some [] then
            (case needs_double_confirmation (sql_split env) (query_has_where_clause env)
                    queries (the keywords) strict_mode of
               Inl e \<Rightarrow> (Inl e, con1)
             | Inr needed \<Rightarrow>
                 if needed then
                   (case prompt con1 second_prompt_text of
                      (Inl e, con2) \<Rightarrow> (Inl e, con2)
                    | (Inr second, con2) \<Rightarrow>
                        if \<not> second then (Inr (Some False), con2)
                        else (Inr (Some True), con2))
                 else (Inr (Some True), con1))
          else (Inr (Some True), con1))"

section \<open>Notions used in the statements\<close>

text \<open>
  The first whitespace-delimited token as a total function: the leading run of
  non-whitespace after the leading whitespace. It is what \<^verbatim>\<open>q.split()[0]\<close> returns
  whenever it returns.
\<close>

definition first_word :: "string \<Rightarrow> string" where
  "first_word q = takeWhile (\<lambda>x. \<not> py_isspace x) (dropWhile py_isspace q)"

text \<open>
  Stand-ins for the collaborators, for evaluating the decider on concrete blobs: a
  splitter for blobs of one statement, a WHERE classifier that reports none, and two
  blobs whose first token is followed by a TAB.
\<close>

definition single_statement :: "string \<Rightarrow> string list" where
  "single_statement blob = [blob]"

definition where_absent :: "string \<Rightarrow> bool" where
  "where_absent q = False"

definition tab_separated_drop :: string where
  "tab_separated_drop = ''DROP'' @ [CHR 0x09] @ ''TABLE x''"

definition tab_separated_select :: string where
  "tab_separated_select = ''SELECT'' @ [CHR 0x09] @ ''1''"


section \<open>Facts about the string primitives and the decider\<close>

lemma py_isspace_lower_char: "py_isspace (py_lower_char c) = py_isspace c"
  unfolding py_isspace_def py_lower_char_def Let_def
  by (auto simp: of_char_of)

lemma first_token_first_word:
  assumes "\<exists>c \<in> set q. \<not> py_isspace c"
  shows "first_token q = Inr (first_word q)"
proof -
  from assms have "dropWhile py_isspace q \<noteq> []"
    by (simp add: dropWhile_eq_Nil_conv)
  then obtain c cs where eq: "dropWhile py_isspace q = c # cs"
    by (cases "dropWhile py_isspace q") auto
  have "\<not> py_isspace c"
    using hd_dropWhile [of py_isspace q] eq by simp
  then show ?thesis
    unfolding first_token_def first_word_def
    by (subst py_split.simps) (simp add: eq)
qed

lemma py_strip_has_nonspace:
  assumes "py_strip s \<noteq> []"
  shows "\<exists>c \<in> set (py_strip s). \<not> py_isspace c"
proof -
  let ?t = "dropWhile py_isspace (rev (dropWhile py_isspace s))"
  from assms have ne: "?t \<noteq> []" by (simp add: py_strip_def)
  then have "\<not> py_isspace (hd ?t)" by (rule hd_dropWhile)
  moreover from ne have "hd ?t \<in> set ?t" by simp
  ultimately show ?thesis by (auto simp: py_strip_def)
qed

lemma normalized_has_nonspace:
  assumes "q \<in> set (normalized_statements sp queries)"
  shows "\<exists>c \<in> set q. \<not> py_isspace c"
proof -
  from assms obtain s where s: "py_strip s \<noteq> []" and q: "q = py_lower (py_strip s)"
    by (auto simp: normalized_statements_def)
  from py_strip_has_nonspace [OF s] obtain c where "c \<in> set (py_strip s)" "\<not> py_isspace c"
    by blast
  then have "py_lower_char c \<in> set q" "\<not> py_isspace (py_lower_char c)"
    by (auto simp: q py_lower_def py_isspace_lower_char)
  then show ?thesis by blast
qed

lemma prefix_matched_iff:
  "prefix_matched kws q \<longleftrightarrow> (\<exists>kw \<in> set kws. prefix (kw @ '' '') q \<or> q = kw)"
  by (induction kws) auto

lemma statement_matched_total:
  assumes "\<exists>c \<in> set q. \<not> py_isspace c"
  shows "statement_matched kws q = Inr (prefix_matched kws q \<or> first_word q \<in> set kws)"
  by (simp add: statement_matched_def first_token_first_word [OF assms])

lemma check_statements_total:
  assumes "\<forall>q \<in> set qs. \<exists>c \<in> set q. \<not> py_isspace c"
  shows "check_statements hw strict kws qs =
           Inr (\<exists>q \<in> set qs. (prefix_matched kws q \<or> first_word q \<in> set kws) \<and> (strict \<or> \<not> hw q))"
  using assms
proof (induction qs)
  case Nil
  then show ?case by simp
next
  case (Cons q qs)
  then have m: "statement_matched kws q = Inr (prefix_matched kws q \<or> first_word q \<in> set kws)"
    by (simp add: statement_matched_total)
  from Cons have ih: "check_statements hw strict kws qs =
           Inr (\<exists>q \<in> set qs. (prefix_matched kws q \<or> first_word q \<in> set kws) \<and> (strict \<or> \<not> hw q))"
    by simp
  show ?case
    using m ih by auto
qed

lemma check_statements_prefix_only_total:
  "check_statements_prefix_only hw strict kws qs =
           Inr (\<exists>q \<in> set qs. prefix_matched kws q \<and> (strict \<or> \<not> hw q))"
  by (induction qs) auto

lemma needs_double_confirmation_total:
  "needs_double_confirmation sp hw queries keywords strict =
     Inr (\<exists>q \<in> set (normalized_statements sp queries).
            (prefix_matched (normalized_keywords keywords) q
               \<or> first_word q \<in> set (normalized_keywords keywords))
            \<and> (strict \<or> \<not> hw q))"
proof -
  have "\<forall>q \<in> set (normalized_statements sp queries). \<exists>c \<in> set q. \<not> py_isspace c"
    using normalized_has_nonspace by blast
  then show ?thesis
    by (auto simp: needs_double_confirmation_def Let_def check_statements_total)
qed

lemma needs_double_confirmation_prefix_only_total:
  "needs_double_confirmation_prefix_only sp hw queries keywords strict =
     Inr (\<exists>q \<in> set (normalized_statements sp queries).
            prefix_matched (normalized_keywords keywords) q \<and> (strict \<or> \<not> hw q))"
  by (auto simp: needs_double_confirmation_prefix_only_def Let_def
        check_statements_prefix_only_total)

section \<open>The decider: strict and relaxed mode\<close>

text \<open>
  C4. In strict mode the decider returns true exactly when some normalized statement of
  the blob matches some normalized policy phrase (equal to it, starting with the phrase
  and a space, or having it as first token), whatever the WHERE classifier says and
  wherever in the blob the statement stands.
\<close>

theorem strict_mode_any_match:
  "needs_double_confirmation sp hw queries keywords True =
     Inr (\<exists>q \<in> set (normalized_statements sp queries).
            \<exists>kw \<in> set (normalized_keywords keywords).
              q = kw \<or> prefix (kw @ '' '') q \<or> first_word q = kw)"
proof -
  have "(\<exists>q \<in> set (normalized_statements sp queries).
            (prefix_matched (normalized_keywords keywords) q
               \<or> first_word q \<in> set (normalized_keywords keywords)) \<and> (True \<or> \<not> hw q))
        = (\<exists>q \<in> set (normalized_statements sp queries).
            \<exists>kw \<in> set (normalized_keywords keywords).
              q = kw \<or> prefix (kw @ '' '') q \<or> first_word q = kw)"
    by (auto simp: prefix_matched_iff)
  then show ?thesis
    by (simp only: needs_double_confirmation_total)
qed

theorem strict_mode_any_match_witness:
  "needs_double_confirmation (\<lambda>blob. [''SELECT 1;'', ''DROP TABLE x''])
     (\<lambda>q. True) ''SELECT 1; DROP TABLE x'' [''drop''] True = Inr True"
proof -
  have n: "normalized_statements (\<lambda>blob. [''SELECT 1;'', ''DROP TABLE x''])
             ''SELECT 1; DROP TABLE x'' = [''select 1;'', ''drop table x'']"
    by code_simp
  have k: "normalized_keywords [''drop''] = [''drop'']"
    by code_simp
  show ?thesis
    by (simp add: strict_mode_any_match n k)
qed

text \<open>
  C3. In relaxed mode a statement that matches a policy phrase makes the loop return
  true at once when the classifier reports no WHERE clause on it, and otherwise the loop
  goes on with the remaining statements; so the decider returns true exactly when some
  normalized statement matches and has no WHERE clause reported.
\<close>

theorem relaxed_mode_where_gate:
  "(statement_matched norm_keywords q = Inr True \<longrightarrow>
      check_statements hw False norm_keywords (q # rest) =
        (if hw q then check_statements hw False norm_keywords rest else Inr True))
   \<and> needs_double_confirmation sp hw queries keywords False =
       Inr (\<exists>q \<in> set (normalized_statements sp queries).
              (\<exists>kw \<in> set (normalized_keywords keywords).
                 q = kw \<or> prefix (kw @ '' '') q \<or> first_word q = kw)
              \<and> \<not> hw q)"
proof
  show "statement_matched norm_keywords q = Inr True \<longrightarrow>
      check_statements hw False norm_keywords (q # rest) =
        (if hw q then check_statements hw False norm_keywords rest else Inr True)"
    by simp
next
  have "(\<exists>q \<in> set (normalized_statements sp queries).
            (prefix_matched (normalized_keywords keywords) q
               \<or> first_word q \<in> set (normalized_keywords keywords)) \<and> (False \<or> \<not> hw q))
        = (\<exists>q \<in> set (normalized_statements sp queries).
              (\<exists>kw \<in> set (normalized_keywords keywords).
                 q = kw \<or> prefix (kw @ '' '') q \<or> first_word q = kw)
              \<and> \<not> hw q)"
    by (auto simp: prefix_matched_iff)
  then show "needs_double_confirmation sp hw queries keywords False =
       Inr (\<exists>q \<in> set (normalized_statements sp queries).
              (\<exists>kw \<in> set (normalized_keywords keywords).
                 q = kw \<or> prefix (kw @ '' '') q \<or> first_word q = kw)
              \<and> \<not> hw q)"
    by (simp only: needs_double_confirmation_total)
qed

theorem relaxed_mode_where_gate_witness:
  "statement_matched [''drop database''] ''drop database prod'' = Inr True
   \<and> check_statements (\<lambda>q. q = ''delete from users where id=1'') False [''drop database'']
       [''drop database prod''] = Inr True
   \<and> needs_double_confirmation single_statement (\<lambda>q. q = ''delete from users where id=1'')
        ''DROP DATABASE prod'' [''drop database''] False = Inr True
   \<and> needs_double_confirmation single_statement (\<lambda>q. q = ''delete from users where id=1'')
        ''DELETE FROM users WHERE id=1'' [''delete''] False = Inr False"
proof -
  have m: "statement_matched [''drop database''] ''drop database prod'' = Inr True"
    by code_simp
  have d: "needs_double_confirmation single_statement (\<lambda>q. q = ''delete from users where id=1'')
        ''DELETE FROM users WHERE id=1'' [''delete''] False = Inr False"
    by code_simp
  have n: "needs_double_confirmation single_statement (\<lambda>q. q = ''delete from users where id=1'')
        ''DROP DATABASE prod'' [''drop database''] False = Inr True"
    by code_simp
  from relaxed_mode_where_gate
    [of "[''drop database'']" "''drop database prod''"
        "\<lambda>q. q = ''delete from users where id=1''" "[]"]
  have "check_statements (\<lambda>q. q = ''delete from users where id=1'') False [''drop database'']
       [''drop database prod''] = Inr True"
    using m by simp
  with m d n show ?thesis by simp
qed

text \<open>
  C5, as stated, fails: a statement whose first token is followed by a TAB is matched
  by the first-token rule only, and the two deciders differ on it.
\<close>

theorem fallback_not_redundant:
  "statement_matched [''drop''] (''drop'' @ [CHR 0x09] @ ''table x'') = Inr True
   \<and> prefix_matched [''drop''] (''drop'' @ [CHR 0x09] @ ''table x'') = False
   \<and> needs_double_confirmation single_statement where_absent tab_separated_drop [''drop''] True
       = Inr True
   \<and> needs_double_confirmation_prefix_only single_statement where_absent tab_separated_drop
       [''drop''] True = Inr False"
  by code_simp

text \<open>
  C5, amended. The decider and the decider without the first-token rule return the same
  result on exactly the inputs where the following holds: if some normalized statement
  that counts in the given mode (every statement in strict mode, a statement with no
  WHERE clause reported in relaxed mode) has a normalized keyword as its first token,
  then some normalized statement that counts in the given mode equals a normalized
  keyword or starts with a normalized keyword and a space.
\<close>

theorem fallback_redundant_iff:
  "needs_double_confirmation sp hw queries keywords strict =
     needs_double_confirmation_prefix_only sp hw queries keywords strict
   \<longleftrightarrow>
   ((\<exists>q \<in> set (normalized_statements sp queries).
       first_word q \<in> set (normalized_keywords keywords) \<and> (strict \<or> \<not> hw q))
    \<longrightarrow> (\<exists>q \<in> set (normalized_statements sp queries).
          (\<exists>kw \<in> set (normalized_keywords keywords). q = kw \<or> prefix (kw @ '' '') q)
          \<and> (strict \<or> \<not> hw q)))"
  unfolding needs_double_confirmation_total needs_double_confirmation_prefix_only_total
    prefix_matched_iff
  by blast

theorem fallback_redundant_iff_witness:
  "needs_double_confirmation single_statement where_absent ''DROP TABLE users'' [''drop''] False
     = needs_double_confirmation_prefix_only single_statement where_absent ''DROP TABLE users''
         [''drop''] False
   \<and> needs_double_confirmation_prefix_only single_statement where_absent ''DROP TABLE users''
         [''drop''] False = Inr True
   \<and> needs_double_confirmation single_statement where_absent tab_separated_select [''drop''] True
     = needs_double_confirmation_prefix_only single_statement where_absent tab_separated_select
         [''drop''] True
   \<and> needs_double_confirmation_prefix_only single_statement where_absent tab_separated_select
         [''drop''] True = Inr False"
proof -
  have c1: "\<exists>q \<in> set (normalized_statements single_statement ''DROP TABLE users'').
              (\<exists>kw \<in> set (normalized_keywords [''drop'']). q = kw \<or> prefix (kw @ '' '') q)
              \<and> (False \<or> \<not> where_absent q)"
    by code_simp
  have p1: "needs_double_confirmation_prefix_only single_statement where_absent
             ''DROP TABLE users'' [''drop''] False = Inr True"
    by code_simp
  have a2: "\<not> (\<exists>q \<in> set (normalized_statements single_statement tab_separated_select).
              first_word q \<in> set (normalized_keywords [''drop''])
              \<and> (True \<or> \<not> where_absent q))"
    by code_simp
  have p2: "needs_double_confirmation_prefix_only single_statement where_absent
             tab_separated_select [''drop''] True = Inr False"
    by code_simp
  have e1: "needs_double_confirmation single_statement where_absent ''DROP TABLE users''
              [''drop''] False
            = needs_double_confirmation_prefix_only single_statement where_absent
                ''DROP TABLE users'' [''drop''] False"
    using fallback_redundant_iff
            [of single_statement where_absent "''DROP TABLE users''" "[''drop'']" False] c1
    by blast
  have e2: "needs_double_confirmation single_statement where_absent tab_separated_select
              [''drop''] True
            = needs_double_confirmation_prefix_only single_statement where_absent
                tab_separated_select [''drop''] True"
    using fallback_redundant_iff
            [of single_statement where_absent tab_separated_select "[''drop'']" True] a2
    by blast
  from e1 p1 e2 p2 show ?thesis by simp
qed


section \<open>The decider: empty input and monotonicity\<close>

text \<open>
  C9. When the blob yields no non-empty statement after splitting, trimming and
  lower-casing, or the keywords yield no non-empty phrase, the decider returns false;
  and on every input it returns a boolean: the \<^verbatim>\<open>IndexError\<close> of
  \<^verbatim>\<open>q.split()[0]\<close> cannot happen on a normalized statement.
\<close>

theorem empty_input_is_no_match:
  "(normalized_statements sp queries = [] \<or> normalized_keywords keywords = [] \<longrightarrow>
      needs_double_confirmation sp hw queries keywords strict = Inr False)
   \<and> (\<exists>b. needs_double_confirmation sp hw queries keywords strict = Inr b)"
proof
  show "normalized_statements sp queries = [] \<or> normalized_keywords keywords = [] \<longrightarrow>
      needs_double_confirmation sp hw queries keywords strict = Inr False"
    by (simp add: needs_double_confirmation_def Let_def)
next
  show "\<exists>b. needs_double_confirmation sp hw queries keywords strict = Inr b"
    by (simp only: needs_double_confirmation_total) blast
qed

theorem empty_input_is_no_match_witness:
  "normalized_statements (\<lambda>blob. ['''', ''  '']) '' ;  '' = []
   \<and> needs_double_confirmation (\<lambda>blob. ['''', ''  '']) where_absent '' ;  '' [''drop''] True
       = Inr False
   \<and> normalized_keywords ['''', '' ''] = []
   \<and> needs_double_confirmation single_statement where_absent ''DROP TABLE x'' ['''', '' ''] True
       = Inr False"
proof -
  have n: "normalized_statements (\<lambda>blob. ['''', ''  '']) '' ;  '' = []"
    by code_simp
  have k: "normalized_keywords ['''', '' ''] = []"
    by code_simp
  from empty_input_is_no_match
         [of "\<lambda>blob. ['''', ''  '']" "'' ;  ''" "[''drop'']" where_absent True] n
  have a: "needs_double_confirmation (\<lambda>blob. ['''', ''  '']) where_absent '' ;  '' [''drop''] True
       = Inr False" by blast
  from empty_input_is_no_match
         [of single_statement "''DROP TABLE x''" "['''', '' '']" where_absent True] k
  have b: "needs_double_confirmation single_statement where_absent ''DROP TABLE x'' ['''', '' '']
       True = Inr False" by blast
  from n k a b show ?thesis by simp
qed

text \<open>
  C10. Whenever the decider returns true in relaxed mode, it returns true in strict
  mode on the same blob and keywords.
\<close>

theorem relaxed_implies_strict:
  "needs_double_confirmation sp hw queries keywords False = Inr True \<Longrightarrow>
   needs_double_confirmation sp hw queries keywords True = Inr True"
  unfolding needs_double_confirmation_total by auto

theorem relaxed_implies_strict_witness:
  "needs_double_confirmation single_statement where_absent ''DROP DATABASE prod''
     [''drop database''] False = Inr True
   \<and> needs_double_confirmation single_statement where_absent ''DROP DATABASE prod''
     [''drop database''] True = Inr True"
proof -
  have r: "needs_double_confirmation single_statement where_absent ''DROP DATABASE prod''
     [''drop database''] False = Inr True"
    by code_simp
  from relaxed_implies_strict [OF r] r show ?thesis by simp
qed

section \<open>The boolean prompt parser\<close>

lemma py_lower_char_idem: "py_lower_char (py_lower_char c) = py_lower_char c"
  unfolding py_lower_char_def Let_def
  by (auto simp: of_char_of)

lemma py_lower_idem: "py_lower (py_lower s) = py_lower s"
  by (simp add: py_lower_def py_lower_char_idem)

text \<open>
  C8. \<^verbatim>\<open>convert\<close> returns a boolean argument unchanged. A string is lower-cased:
  it converts to true exactly when the lower-cased text is "y" or "yes", to false
  exactly when it is "n" or "no", and every other string fails with
  \<^verbatim>\<open>BadParameter\<close>; the result does not depend on the case of the input.
\<close>

theorem convert_contract:
  "convert (BoolV b) = Inr b
   \<and> (convert (StrV s) = Inr True \<longleftrightarrow> py_lower s = ''y'' \<or> py_lower s = ''yes'')
   \<and> (convert (StrV s) = Inr False \<longleftrightarrow> py_lower s = ''n'' \<or> py_lower s = ''no'')
   \<and> (py_lower s \<notin> set [''y'', ''yes'', ''n'', ''no''] \<longrightarrow>
        convert (StrV s) = Inl (BadParameter (py_lower s @ '' is not a valid boolean'')))
   \<and> convert (StrV (py_lower s)) = convert (StrV s)"
proof -
  have 1: "convert (BoolV b) = Inr b" by simp
  have 2: "convert (StrV s) = Inr True \<longleftrightarrow> py_lower s = ''y'' \<or> py_lower s = ''yes''"
    by (auto simp: Let_def)
  have 3: "convert (StrV s) = Inr False \<longleftrightarrow> py_lower s = ''n'' \<or> py_lower s = ''no''"
    by (auto simp: Let_def)
  have 4: "py_lower s \<notin> set [''y'', ''yes'', ''n'', ''no''] \<longrightarrow>
        convert (StrV s) = Inl (BadParameter (py_lower s @ '' is not a valid boolean''))"
    by (simp add: Let_def)
  have 5: "convert (StrV (py_lower s)) = convert (StrV s)"
    by (simp only: convert.simps py_lower_idem)
  show ?thesis
    by (intro conjI) (rule 1, rule 2, rule 3, rule 4, rule 5)
qed

theorem convert_contract_witness:
  "convert (StrV ''Y'') = Inr True \<and> convert (StrV ''yes'') = Inr True
   \<and> convert (StrV ''N'') = Inr False \<and> convert (StrV ''no'') = Inr False
   \<and> convert (BoolV False) = Inr False
   \<and> convert (StrV ''Maybe'') = Inl (BadParameter ''maybe is not a valid boolean'')"
proof -
  have l: "py_lower ''Maybe'' = ''maybe''" "py_lower ''Y'' = ''y''" "py_lower ''yes'' = ''yes''"
    "py_lower ''N'' = ''n''" "py_lower ''no'' = ''no''"
    by code_simp+
  note c = convert_contract [of False]
  have m: "convert (StrV ''Maybe'') = Inl (BadParameter ''maybe is not a valid boolean'')"
    using c [of "''Maybe''"] by (simp add: l)
  have a: "convert (StrV ''Y'') = Inr True" using c [of "''Y''"] by (simp add: l)
  have b: "convert (StrV ''yes'') = Inr True" using c [of "''yes''"] by (simp add: l)
  have d: "convert (StrV ''N'') = Inr False" using c [of "''N''"] by (simp add: l)
  have e: "convert (StrV ''no'') = Inr False" using c [of "''no''"] by (simp add: l)
  have g: "convert (BoolV False) = Inr False" using c [of "''no''"] by blast
  show ?thesis
    by (intro conjI) (rule a, rule b, rule d, rule e, rule g, rule m)
qed

section \<open>The confirmation flow: prompts and results\<close>

lemma prompt_eq:
  "prompt con text =
     (Inr (script con (length (asked con)) = Answer True), con\<lparr>asked := asked con @ [text]\<rparr>)"
  by (cases "script con (length (asked con))") (auto simp: prompt_def click_prompt_def)

lemma confirm_eq:
  "confirm con text =
     (Inr (script con (length (asked con)) = Answer True), con\<lparr>asked := asked con @ [text]\<rparr>)"
  by (cases "script con (length (asked con))") (auto simp: confirm_def click_confirm_def)

lemma needs_double_confirmation_Inr:
  "\<exists>b. needs_double_confirmation sp hw queries keywords strict = Inr b"
  by (simp only: needs_double_confirmation_total) blast

text \<open>
  The flow, call by call: which prompts it writes and what it returns, in terms of the
  two scripted outcomes and the gate of line 106-107.
\<close>

lemma confirm_destructive_query_eq:
  assumes "is_destructive env queries" "stdin_isatty env"
  shows "confirm_destructive_query env con queries double_confirm keywords strict_mode =
    (if script con (length (asked con)) \<noteq> Answer True
     then (Inr (Some False), con\<lparr>asked := asked con @ [first_prompt_text]\<rparr>)
     else if double_confirm = Some True \<and> keywords \<noteq> None \<and> keywords \<noteq> Some []
             \<and> needs_double_confirmation (sql_split env) (query_has_where_clause env) queries
                  (the keywords) strict_mode = Inr True
     then (Inr (Some (script con (Suc (length (asked con))) = Answer True)),
           con\<lparr>asked := asked con @ [first_prompt_text, second_prompt_text]\<rparr>)
     else (Inr (Some True), con\<lparr>asked := asked con @ [first_prompt_text]\<rparr>))"
proof -
  obtain b where b: "needs_double_confirmation (sql_split env) (query_has_where_clause env)
      queries (the keywords) strict_mode = Inr b"
    using needs_double_confirmation_Inr by blast
  show ?thesis
    using assms by (auto simp: confirm_destructive_query_def prompt_eq b)
qed

text \<open>
  C1. On a destructive blob, with a terminal attached and an affirmative first answer,
  the flow writes the second prompt exactly when \<open>double_confirm\<close> is true, the keywords
  are a non-empty collection and the decider returns true. Then the second answer is
  the result: true when affirmative, false otherwise. When the second prompt is not
  written, the result is true.
\<close>

theorem second_prompt_gate:
  assumes "is_destructive env queries" "stdin_isatty env"
    and "script con (length (asked con)) = Answer True"
  shows "(double_confirm = Some True \<and> keywords \<noteq> None \<and> keywords \<noteq> Some []
            \<and> needs_double_confirmation (sql_split env) (query_has_where_clause env) queries
                 (the keywords) strict_mode = Inr True
          \<longrightarrow> asked (snd (confirm_destructive_query env con queries double_confirm keywords
                  strict_mode)) = asked con @ [first_prompt_text, second_prompt_text]
              \<and> fst (confirm_destructive_query env con queries double_confirm keywords
                  strict_mode) = Inr (Some (script con (Suc (length (asked con))) = Answer True)))
       \<and> (\<not> (double_confirm = Some True \<and> keywords \<noteq> None \<and> keywords \<noteq> Some []
            \<and> needs_double_confirmation (sql_split env) (query_has_where_clause env) queries
                 (the keywords) strict_mode = Inr True)
          \<longrightarrow> asked (snd (confirm_destructive_query env con queries double_confirm keywords
                  strict_mode)) = asked con @ [first_prompt_text]
              \<and> fst (confirm_destructive_query env con queries double_confirm keywords
                  strict_mode) = Inr (Some True))"
  using assms(3) by (simp add: confirm_destructive_query_eq [OF assms(1,2)])

theorem second_prompt_gate_witness:
  "fst (confirm_destructive_query
          \<lparr>is_destructive = (\<lambda>q. True), sql_split = single_statement,
           query_has_where_clause = where_absent, stdin_isatty = True\<rparr>
          \<lparr>script = (\<lambda>n. if n = 0 then Answer True else Answer False), asked = []\<rparr>
          ''DROP TABLE users'' (Some True) (Some [''drop'']) True) = Inr (Some False)
   \<and> asked (snd (confirm_destructive_query
          \<lparr>is_destructive = (\<lambda>q. True), sql_split = single_statement,
           query_has_where_clause = where_absent, stdin_isatty = True\<rparr>
          \<lparr>script = (\<lambda>n. if n = 0 then Answer True else Answer False), asked = []\<rparr>
          ''DROP TABLE users'' (Some True) (Some [''drop'']) True))
       = [first_prompt_text, second_prompt_text]
   \<and> fst (confirm_destructive_query
          \<lparr>is_destructive = (\<lambda>q. True), sql_split = single_statement,
           query_has_where_clause = where_absent, stdin_isatty = True\<rparr>
          \<lparr>script = (\<lambda>n. Answer True), asked = []\<rparr>
          ''DROP TABLE users'' (Some True) (Some [''drop'']) True) = Inr (Some True)
   \<and> asked (snd (confirm_destructive_query
          \<lparr>is_destructive = (\<lambda>q. True), sql_split = single_statement,
           query_has_where_clause = where_absent, stdin_isatty = True\<rparr>
          \<lparr>script = (\<lambda>n. Answer True), asked = []\<rparr>
          ''DROP TABLE users'' None (Some [''drop'']) True)) = [first_prompt_text]"
proof -
  let ?E = "\<lparr>is_destructive = (\<lambda>q. True), sql_split = single_statement,
           query_has_where_clause = where_absent, stdin_isatty = True\<rparr>"
  have n: "needs_double_confirmation single_statement where_absent ''DROP TABLE users''
             [''drop''] True = Inr True"
    by code_simp
  note g = second_prompt_gate [of ?E "''DROP TABLE users''"]
  from g [of "\<lparr>script = (\<lambda>n. if n = 0 then Answer True else Answer False), asked = []\<rparr>"
            "Some True" "Some [''drop'']" True] n
  have a: "fst (confirm_destructive_query ?E
          \<lparr>script = (\<lambda>n. if n = 0 then Answer True else Answer False), asked = []\<rparr>
          ''DROP TABLE users'' (Some True) (Some [''drop'']) True) = Inr (Some False)"
    and b: "asked (snd (confirm_destructive_query ?E
          \<lparr>script = (\<lambda>n. if n = 0 then Answer True else Answer False), asked = []\<rparr>
          ''DROP TABLE users'' (Some True) (Some [''drop'']) True))
       = [first_prompt_text, second_prompt_text]"
    by simp_all
  from g [of "\<lparr>script = (\<lambda>n. Answer True), asked = []\<rparr>" "Some True" "Some [''drop'']" True] n
  have c: "fst (confirm_destructive_query ?E \<lparr>script = (\<lambda>n. Answer True), asked = []\<rparr>
          ''DROP TABLE users'' (Some True) (Some [''drop'']) True) = Inr (Some True)"
    by simp
  from g [of "\<lparr>script = (\<lambda>n. Answer True), asked = []\<rparr>" None "Some [''drop'']" True]
  have d: "asked (snd (confirm_destructive_query ?E \<lparr>script = (\<lambda>n. Answer True), asked = []\<rparr>
          ''DROP TABLE users'' None (Some [''drop'']) True)) = [first_prompt_text]"
    by simp
  show ?thesis
    by (intro conjI) (rule a, rule b, rule c, rule d)
qed

text \<open>
  C2. When the classifier reports the blob not destructive, or standard input is not
  a terminal, the flow returns \<^verbatim>\<open>None\<close> and leaves the console as it was: nothing is
  written and no answer is read.
\<close>

theorem no_prompt_when_not_applicable:
  "\<not> is_destructive env queries \<or> \<not> stdin_isatty env \<Longrightarrow>
   confirm_destructive_query env con queries double_confirm keywords strict_mode = (Inr None, con)"
  by (simp add: confirm_destructive_query_def)

theorem no_prompt_when_not_applicable_witness:
  "confirm_destructive_query
     \<lparr>is_destructive = (\<lambda>q. True), sql_split = single_statement,
      query_has_where_clause = where_absent, stdin_isatty = False\<rparr>
     \<lparr>script = (\<lambda>n. Answer True), asked = []\<rparr>
     ''DROP TABLE users'' (Some True) (Some [''drop'']) True
   = (Inr None, \<lparr>script = (\<lambda>n. Answer True), asked = []\<rparr>)
   \<and> confirm_destructive_query
     \<lparr>is_destructive = (\<lambda>q. False), sql_split = single_statement,
      query_has_where_clause = where_absent, stdin_isatty = True\<rparr>
     \<lparr>script = (\<lambda>n. Answer True), asked = []\<rparr>
     ''SELECT 1'' (Some True) (Some [''drop'']) True
   = (Inr None, \<lparr>script = (\<lambda>n. Answer True), asked = []\<rparr>)"
proof -
  have a: "confirm_destructive_query
     \<lparr>is_destructive = (\<lambda>q. True), sql_split = single_statement,
      query_has_where_clause = where_absent, stdin_isatty = False\<rparr>
     \<lparr>script = (\<lambda>n. Answer True), asked = []\<rparr>
     ''DROP TABLE users'' (Some True) (Some [''drop'']) True
   = (Inr None, \<lparr>script = (\<lambda>n. Answer True), asked = []\<rparr>)"
    by (rule no_prompt_when_not_applicable) simp
  have b: "confirm_destructive_query
     \<lparr>is_destructive = (\<lambda>q. False), sql_split = single_statement,
      query_has_where_clause = where_absent, stdin_isatty = True\<rparr>
     \<lparr>script = (\<lambda>n. Answer True), asked = []\<rparr>
     ''SELECT 1'' (Some True) (Some [''drop'']) True
   = (Inr None, \<lparr>script = (\<lambda>n. Answer True), asked = []\<rparr>)"
    by (rule no_prompt_when_not_applicable) simp
  show ?thesis
    by (intro conjI) (rule a, rule b)
qed

text \<open>
  C7. On a destructive blob with a terminal attached, a first answer that is not
  affirmative gives false, whatever \<open>double_confirm\<close>, the keywords and
  \<open>strict_mode\<close> are, and only the first prompt is written.
\<close>

theorem first_decline_is_final:
  assumes "is_destructive env queries" "stdin_isatty env"
    and "script con (length (asked con)) \<noteq> Answer True"
  shows "confirm_destructive_query env con queries double_confirm keywords strict_mode =
           (Inr (Some False), con\<lparr>asked := asked con @ [first_prompt_text]\<rparr>)"
  using assms(3) by (simp add: confirm_destructive_query_eq [OF assms(1,2)])

theorem first_decline_is_final_witness:
  "fst (confirm_destructive_query
          \<lparr>is_destructive = (\<lambda>q. True), sql_split = single_statement,
           query_has_where_clause = where_absent, stdin_isatty = True\<rparr>
          \<lparr>script = (\<lambda>n. Answer False), asked = []\<rparr>
          ''DROP TABLE users'' (Some True) (Some [''drop'']) True) = Inr (Some False)
   \<and> asked (snd (confirm_destructive_query
          \<lparr>is_destructive = (\<lambda>q. True), sql_split = single_statement,
           query_has_where_clause = where_absent, stdin_isatty = True\<rparr>
          \<lparr>script = (\<lambda>n. Answer False), asked = []\<rparr>
          ''DROP TABLE users'' (Some True) (Some [''drop'']) True)) = [first_prompt_text]"
  using first_decline_is_final
          [of "\<lparr>is_destructive = (\<lambda>q. True), sql_split = single_statement,
                query_has_where_clause = where_absent, stdin_isatty = True\<rparr>"
              "''DROP TABLE users''" "\<lparr>script = (\<lambda>n. Answer False), asked = []\<rparr>"
              "Some True" "Some [''drop'']" True]
  by simp

text \<open>
  C6. A \<^verbatim>\<open>click.Abort\<close> raised in \<^verbatim>\<open>click.prompt\<close> or \<^verbatim>\<open>click.confirm\<close> is
  caught by the helper and becomes false; the helpers and the flow never end in
  \<^verbatim>\<open>Abort\<close> (the flow always returns a value), and an abort at the first or at the
  second prompt makes the flow return false.
\<close>

theorem abort_is_decline:
  "(script con (length (asked con)) = UserAbort \<longrightarrow>
      fst (prompt con text) = Inr False \<and> fst (confirm con text) = Inr False)
   \<and> fst (prompt con text) \<noteq> Inl Abort \<and> fst (confirm con text) \<noteq> Inl Abort
   \<and> (\<exists>r. fst (confirm_destructive_query env con queries double_confirm keywords strict_mode)
            = Inr r)
   \<and> (is_destructive env queries \<and> stdin_isatty env
        \<and> script con (length (asked con)) = UserAbort \<longrightarrow>
      fst (confirm_destructive_query env con queries double_confirm keywords strict_mode)
        = Inr (Some False))
   \<and> (is_destructive env queries \<and> stdin_isatty env
        \<and> script con (length (asked con)) = Answer True
        \<and> length (asked (snd (confirm_destructive_query env con queries double_confirm keywords
             strict_mode))) = length (asked con) + 2
        \<and> script con (Suc (length (asked con))) = UserAbort \<longrightarrow>
      fst (confirm_destructive_query env con queries double_confirm keywords strict_mode)
        = Inr (Some False))"
proof (intro conjI)
  show "script con (length (asked con)) = UserAbort \<longrightarrow>
      fst (prompt con text) = Inr False \<and> fst (confirm con text) = Inr False"
    by (simp add: prompt_eq confirm_eq)
  show "fst (prompt con text) \<noteq> Inl Abort" by (simp add: prompt_eq)
  show "fst (confirm con text) \<noteq> Inl Abort" by (simp add: confirm_eq)
  show "\<exists>r. fst (confirm_destructive_query env con queries double_confirm keywords strict_mode)
            = Inr r"
  proof (cases "is_destructive env queries \<and> stdin_isatty env")
    case True
    then show ?thesis by (simp add: confirm_destructive_query_eq)
  next
    case False
    then show ?thesis by (auto simp: confirm_destructive_query_def)
  qed
  show "is_destructive env queries \<and> stdin_isatty env
        \<and> script con (length (asked con)) = UserAbort \<longrightarrow>
      fst (confirm_destructive_query env con queries double_confirm keywords strict_mode)
        = Inr (Some False)"
    by (simp add: confirm_destructive_query_eq)
  show "is_destructive env queries \<and> stdin_isatty env
        \<and> script con (length (asked con)) = Answer True
        \<and> length (asked (snd (confirm_destructive_query env con queries double_confirm keywords
             strict_mode))) = length (asked con) + 2
        \<and> script con (Suc (length (asked con))) = UserAbort \<longrightarrow>
      fst (confirm_destructive_query env con queries double_confirm keywords strict_mode)
        = Inr (Some False)"
    by (auto simp: confirm_destructive_query_eq split: if_splits)
qed

theorem abort_is_decline_witness:
  "fst (prompt \<lparr>script = (\<lambda>n. UserAbort), asked = []\<rparr> first_prompt_text) = Inr False
   \<and> fst (confirm \<lparr>script = (\<lambda>n. UserAbort), asked = []\<rparr> first_prompt_text) = Inr False
   \<and> fst (confirm_destructive_query
          \<lparr>is_destructive = (\<lambda>q. True), sql_split = single_statement,
           query_has_where_clause = where_absent, stdin_isatty = True\<rparr>
          \<lparr>script = (\<lambda>n. UserAbort), asked = []\<rparr>
          ''DROP TABLE users'' (Some True) (Some [''drop'']) True) = Inr (Some False)
   \<and> fst (confirm_destructive_query
          \<lparr>is_destructive = (\<lambda>q. True), sql_split = single_statement,
           query_has_where_clause = where_absent, stdin_isatty = True\<rparr>
          \<lparr>script = (\<lambda>n. if n = 0 then Answer True else UserAbort), asked = []\<rparr>
          ''DROP TABLE users'' (Some True) (Some [''drop'']) True) = Inr (Some False)"
proof -
  let ?E = "\<lparr>is_destructive = (\<lambda>q. True), sql_split = single_statement,
           query_has_where_clause = where_absent, stdin_isatty = True\<rparr>"
  let ?c1 = "\<lparr>script = (\<lambda>n. UserAbort), asked = []\<rparr>"
  let ?c2 = "\<lparr>script = (\<lambda>n. if n = 0 then Answer True else UserAbort), asked = []\<rparr>"
  have n: "needs_double_confirmation single_statement where_absent ''DROP TABLE users''
             [''drop''] True = Inr True"
    by code_simp
  have two: "length (asked (snd (confirm_destructive_query ?E ?c2 ''DROP TABLE users''
               (Some True) (Some [''drop'']) True))) = length (asked ?c2) + 2"
    by (simp add: confirm_destructive_query_eq n)
  from abort_is_decline [of ?c1 first_prompt_text ?E "''DROP TABLE users''" "Some True"
         "Some [''drop'']" True]
  have a: "fst (prompt ?c1 first_prompt_text) = Inr False"
    and b: "fst (confirm ?c1 first_prompt_text) = Inr False"
    and c: "fst (confirm_destructive_query ?E ?c1 ''DROP TABLE users'' (Some True)
              (Some [''drop'']) True) = Inr (Some False)"
    by simp_all
  from abort_is_decline [of ?c2 first_prompt_text ?E "''DROP TABLE users''" "Some True"
         "Some [''drop'']" True] two
  have d: "fst (confirm_destructive_query ?E ?c2 ''DROP TABLE users'' (Some True)
              (Some [''drop'']) True) = Inr (Some False)"
    by simp
  show ?thesis
    by (intro conjI) (rule a, rule b, rule c, rule d)
qed

end
